theory Spec2Isabelle
  imports Complex_Main
begin

section \<open>AutoAgentHire: scoring, submission loop and application ledger\<close>

text \<open>
  A shallow embedding of \<^verbatim>\<open>app/services/matcher.py\<close>, \<^verbatim>\<open>automation/linkedin_bot.py\<close>
  and \<^verbatim>\<open>app/services/auto_apply.py\<close>. Python floats are modelled as reals, Python ints
  as \<^typ>\<open>int\<close>, \<^verbatim>\<open>str\<close> as \<^typ>\<open>string\<close>. Everything the services obtain from
  outside the process (the embedding service, the chat model, the browser, the clock) is an
  explicit argument of the model.
\<close>

subsection \<open>Strings\<close>

text \<open>\<^verbatim>\<open>str.lower()\<close> on ASCII text.\<close>

definition lower_char :: "char \<Rightarrow> char" where
  "lower_char c =
     (case map_of (zip ''ABCDEFGHIJKLMNOPQRSTUVWXYZ'' ''abcdefghijklmnopqrstuvwxyz'') c of
        Some l \<Rightarrow> l
      | None \<Rightarrow> c)"

definition lower :: "string \<Rightarrow> string" where
  "lower s = map lower_char s"

text \<open>\<^verbatim>\<open>sub in s\<close> on strings: \<open>sub\<close> occurs in \<open>s\<close> as a contiguous block.\<close>

fun str_in :: "string \<Rightarrow> string \<Rightarrow> bool" where
  "str_in sub [] = (sub = [])"
| "str_in sub (c # cs) = (take (length sub) (c # cs) = sub \<or> str_in sub cs)"

text \<open>The ASCII characters that \<^verbatim>\<open>str.isspace\<close> accepts.\<close>

definition is_space :: "char \<Rightarrow> bool" where
  "is_space c =
     (c \<in> set [CHR 0x09, CHR 0x0A, CHR 0x0B, CHR 0x0C, CHR 0x0D, CHR 0x1C, CHR 0x1D, CHR 0x1E,
                CHR 0x1F, CHR '' ''])"

text \<open>The truth value of \<^verbatim>\<open>text.strip()\<close>: some character is not white space.\<close>

definition strip_truthy :: "string \<Rightarrow> bool" where
  "strip_truthy s = list_ex (\<lambda>c. \<not> is_space c) s"

text \<open>\<^verbatim>\<open>" ".join(parts)\<close>\<close>

fun join_space :: "string list \<Rightarrow> string" where
  "join_space [] = []"
| "join_space [p] = p"
| "join_space (p # q # ps) = p @ '' '' @ join_space (q # ps)"

text \<open>\<^verbatim>\<open>xs[:n]\<close> for a Python int \<open>n\<close>: a negative bound counts from the end.\<close>

definition py_slice_to :: "'a list \<Rightarrow> int \<Rightarrow> 'a list" where
  "py_slice_to xs n = (if 0 \<le> n then take (nat n) xs else take (length xs - nat (- n)) xs)"

text \<open>\<^verbatim>\<open>xs[-n:]\<close> for a positive literal \<open>n\<close>: the last \<open>n\<close> elements.\<close>

definition py_last_n :: "'a list \<Rightarrow> nat \<Rightarrow> 'a list" where
  "py_last_n xs n = drop (length xs - n) xs"

text \<open>
  \<^verbatim>\<open>round(x, nd)\<close>: to the nearest multiple of \<open>10\<^sup>-\<^sup>n\<^sup>d\<close>, ties to the even one.
\<close>

definition py_round :: "real \<Rightarrow> nat \<Rightarrow> real" where
  "py_round x nd =
     (let y = x * 10 ^ nd; f = \<lfloor>y\<rfloor>; d = y - of_int f
      in of_int (if d < 1 / 2 then f else if 1 / 2 < d then f + 1
                 else if even f then f else f + 1) / 10 ^ nd)"

subsection \<open>Settings (\<^verbatim>\<open>app/config.py\<close>)\<close>

record settings =
  OPENAI_API_KEY :: string
  LINKEDIN_EMAIL :: string
  LINKEDIN_PASSWORD :: string
  MAX_APPLICATIONS_PER_DAY :: int
  APPLICATION_DELAY_MIN :: int
  APPLICATION_DELAY_MAX :: int
  VECTOR_DIMENSION :: nat
  SIMILARITY_THRESHOLD :: real

definition default_settings :: settings where
  "default_settings =
     \<lparr>OPENAI_API_KEY = '''', LINKEDIN_EMAIL = '''', LINKEDIN_PASSWORD = '''',
      MAX_APPLICATIONS_PER_DAY = 50, APPLICATION_DELAY_MIN = 30, APPLICATION_DELAY_MAX = 120,
      VECTOR_DIMENSION = 1536, SIMILARITY_THRESHOLD = 0.8\<rparr>"

subsection \<open>Jobs and the candidate profile (\<^verbatim>\<open>app/models/job_schema.py\<close>)\<close>

record job_details =
  id' :: string
  title :: string
  company :: string
  location :: string
  url :: string
  description :: string
  requirements :: "string list"
  job_type :: string
  experience_level :: string
  match_score :: "real option"

text \<open>The validator of \<^verbatim>\<open>JobDetails.match_score\<close>; it runs when a job object is constructed.\<close>

definition validate_match_score :: "real option \<Rightarrow> bool" where
  "validate_match_score v = (case v of None \<Rightarrow> True | Some x \<Rightarrow> \<not> (x < 0 \<or> 1 < x))"

text \<open>
  The parsed resume, as far as the matcher reads it: the skill names, the list of held
  positions (only its length is used), the declared location and the profile embedding.
\<close>

record user_profile =
  skills :: "string list"
  experience :: "string list"
  personal_location :: string
  embedding :: "real list option"

subsection \<open>The collaborators of the matcher\<close>

text \<open>
  \<open>embedding_api text\<close> is the vector the embedding service returns for \<open>text\<close>
  (\<open>None\<close>: the call raised); \<open>ai_reply text\<close> is the number parsed from the chat model's
  reply for a job text (\<open>None\<close>: the call raised or the reply was not a number).
\<close>

record environment =
  sklearn_numpy_available :: bool
  openai_available :: bool
  selenium_available :: bool
  embedding_api :: "string \<Rightarrow> real list option"
  ai_reply :: "string \<Rightarrow> real option"

definition generate_embedding :: "settings \<Rightarrow> environment \<Rightarrow> string \<Rightarrow> real list" where
  "generate_embedding cfg env text =
     (if OPENAI_API_KEY cfg = [] \<or> \<not> openai_available env
      then replicate (VECTOR_DIMENSION cfg) 0
      else (case embedding_api env text of
              Some e \<Rightarrow> e
            | None \<Rightarrow> replicate (VECTOR_DIMENSION cfg) 0))"

text \<open>
  \<^verbatim>\<open>sklearn.metrics.pairwise.cosine_similarity([u], [v])[0][0]\<close>: both rows are divided by
  their Euclidean norm (a zero row is left as it is), then multiplied; rows of different
  lengths raise (\<open>None\<close>).
\<close>

definition row_norm :: "real list \<Rightarrow> real" where
  "row_norm v = sqrt (\<Sum>x\<leftarrow>v. x * x)"

definition normalize :: "real list \<Rightarrow> real list" where
  "normalize v = (let n = row_norm v in map (\<lambda>x. x / (if n = 0 then 1 else n)) v)"

definition cosine_similarity :: "real list \<Rightarrow> real list \<Rightarrow> real option" where
  "cosine_similarity u v =
     (if length u \<noteq> length v then None
      else Some (\<Sum>(a, b)\<leftarrow>zip (normalize u) (normalize v). a * b))"

subsection \<open>The scoring engine (\<^verbatim>\<open>JobMatcherService\<close>)\<close>

definition create_job_text :: "job_details \<Rightarrow> string" where
  "create_job_text job =
     join_space (filter (\<lambda>p. p \<noteq> [])
       [title job, company job, description job, join_space (requirements job),
        experience_level job, job_type job])"

definition calculate_semantic_similarity ::
  "settings \<Rightarrow> environment \<Rightarrow> user_profile \<Rightarrow> string \<Rightarrow> real" where
  "calculate_semantic_similarity cfg env profile job_text =
     (case embedding profile of
        None \<Rightarrow> 0.5
      | Some pe \<Rightarrow>
          if pe = [] then 0.5
          else if \<not> sklearn_numpy_available env then 0.5
          else (case cosine_similarity pe (generate_embedding cfg env job_text) of
                  None \<Rightarrow> 0.5
                | Some similarity \<Rightarrow> similarity))"

definition common_skills :: "string list" where
  "common_skills =
     [''python'', ''java'', ''javascript'', ''react'', ''angular'', ''vue'', ''node.js'',
      ''sql'', ''postgresql'', ''mysql'', ''mongodb'', ''aws'', ''azure'', ''docker'',
      ''kubernetes'', ''git'', ''linux'', ''fastapi'', ''django'', ''flask'']"

definition job_skills_of :: "job_details \<Rightarrow> string set" where
  "job_skills_of job =
     (let job_text = lower (description job @ '' '' @ join_space (requirements job))
      in set (map lower (requirements job)) \<union> set (filter (\<lambda>skill. str_in skill job_text) common_skills))"

definition calculate_skills_match :: "user_profile \<Rightarrow> job_details \<Rightarrow> real" where
  "calculate_skills_match profile job =
     (let user_skills = set (map lower (skills profile));
          job_skills = job_skills_of job
      in if job_skills = {} then 0.3
         else min (real (card (user_skills \<inter> job_skills)) / real (card job_skills)) 1.0)"

definition experience_mapping :: "string \<Rightarrow> real" where
  "experience_mapping level =
     (if level = ''entry'' then 0
      else if level = ''associate'' then 2
      else if level = ''mid'' then 4
      else if level = ''senior'' then 7
      else if level = ''executive'' then 10
      else 4)"

definition calculate_experience_match :: "user_profile \<Rightarrow> job_details \<Rightarrow> real" where
  "calculate_experience_match profile job =
     (let user_experience_years = real (length (experience profile));
          job_experience_level =
            (if experience_level job \<noteq> [] then lower (experience_level job) else ''mid'');
          required_years = experience_mapping job_experience_level
      in if user_experience_years \<ge> required_years then 1.0
         else if user_experience_years \<ge> required_years * 0.7 then 0.8
         else if user_experience_years \<ge> required_years * 0.5 then 0.6
         else 0.3)"

definition calculate_location_match :: "user_profile \<Rightarrow> job_details \<Rightarrow> real" where
  "calculate_location_match profile job =
     (let user_location = personal_location profile;
          job_location = (if location job \<noteq> [] then lower (location job) else [])
      in if str_in ''remote'' job_location then 1.0
         else if user_location \<noteq> [] \<and> str_in (lower user_location) job_location then 1.0
         else 0.5)"

definition calculate_ai_match_score :: "settings \<Rightarrow> environment \<Rightarrow> string \<Rightarrow> real" where
  "calculate_ai_match_score cfg env job_text =
     (if OPENAI_API_KEY cfg = [] \<or> \<not> openai_available env then 0.5
      else (case ai_reply env job_text of
              None \<Rightarrow> 0.5
            | Some score \<Rightarrow> max 0.0 (min 1.0 score)))"

text \<open>
  \<^verbatim>\<open>_calculate_match_score\<close>. Each of the five helpers catches its own exceptions and
  returns its fallback value, so the handler of this function (which returns 0.5) is never
  entered and has no branch here.
\<close>

definition calculate_match_score ::
  "settings \<Rightarrow> environment \<Rightarrow> user_profile \<Rightarrow> job_details \<Rightarrow> real" where
  "calculate_match_score cfg env profile job =
     (let job_text = create_job_text job;
          semantic_score = calculate_semantic_similarity cfg env profile job_text;
          skills_score = calculate_skills_match profile job;
          experience_score = calculate_experience_match profile job;
          location_score = calculate_location_match profile job;
          ai_score = calculate_ai_match_score cfg env job_text;
          final_score = semantic_score * 0.3 + skills_score * 0.3 + experience_score * 0.2
                        + location_score * 0.1 + ai_score * 0.1
      in min final_score 1.0)"

text \<open>
  \<^verbatim>\<open>match_jobs\<close> for a loaded profile: every job gets its score written into
  \<open>match_score\<close>; the jobs at or above \<open>SIMILARITY_THRESHOLD\<close> are collected in order.
  Nothing in the loop raises, so the handler (which returns the jobs unfiltered) is not
  entered.
\<close>

fun match_jobs_loop ::
  "settings \<Rightarrow> environment \<Rightarrow> user_profile \<Rightarrow> job_details list \<Rightarrow> job_details list
   \<Rightarrow> job_details list" where
  "match_jobs_loop cfg env profile [] matched_jobs = matched_jobs"
| "match_jobs_loop cfg env profile (job # jobs) matched_jobs =
     (let score = calculate_match_score cfg env profile job;
          job' = job\<lparr>match_score := Some score\<rparr>
      in match_jobs_loop cfg env profile jobs
           (if score \<ge> SIMILARITY_THRESHOLD cfg then matched_jobs @ [job'] else matched_jobs))"

definition match_jobs ::
  "settings \<Rightarrow> environment \<Rightarrow> user_profile \<Rightarrow> job_details list \<Rightarrow> job_details list" where
  "match_jobs cfg env profile jobs = match_jobs_loop cfg env profile jobs []"

subsection \<open>The application ledger and the request\<close>

text \<open>
  The search criteria of \<^verbatim>\<open>AutoApplyRequest\<close> only travel to the job scraper, whose result
  is an argument of the model; the fields the orchestrator reads itself are kept.
\<close>

record auto_apply_request =
  max_applications_per_run :: int
  min_match_score :: real
  generate_cover_letter :: bool
  custom_message :: string

text \<open>The two validators of \<^verbatim>\<open>AutoApplyRequest\<close>.\<close>

definition valid_request :: "auto_apply_request \<Rightarrow> bool" where
  "valid_request r =
     (1 \<le> max_applications_per_run r \<and> max_applications_per_run r \<le> 20 \<and>
      0 \<le> min_match_score r \<and> min_match_score r \<le> 1)"

text \<open>
  A reading of the clock: the calendar day and the time within it.
  \<^verbatim>\<open>isoformat\<close> followed by \<^verbatim>\<open>fromisoformat\<close> gives the reading back, so the
  ledger is modelled as holding the reading itself.
\<close>

record datetime =
  date :: int
  time_of_day :: nat

definition datetime_less :: "datetime \<Rightarrow> datetime \<Rightarrow> bool" where
  "datetime_less a b = (date a < date b \<or> (date a = date b \<and> time_of_day a < time_of_day b))"

text \<open>
  One entry of \<^verbatim>\<open>application_history\<close>: the dict literal of \<^verbatim>\<open>_apply_to_job\<close>, with its
  keys \<^verbatim>\<open>company\<close> and \<^verbatim>\<open>match_score\<close> renamed apart from the job's fields, and the key
  \<^verbatim>\<open>retried_at\<close> that a successful retry adds (\<open>None\<close>: the key is absent).
\<close>

record application_record =
  job_id :: string
  job_title :: string
  app_company :: string
  applied_at :: datetime
  success :: bool
  app_match_score :: "real option"
  cover_letter_generated :: bool
  retried_at :: "datetime option"

datatype pyval = PStr string | PBool bool | PFloat real | PNone | PIso datetime

text \<open>The entry as the dict it is: its keys and values, in insertion order.\<close>

definition as_dict :: "application_record \<Rightarrow> (string \<times> pyval) list" where
  "as_dict r =
     [(''job_id'', PStr (job_id r)),
      (''job_title'', PStr (job_title r)),
      (''company'', PStr (app_company r)),
      (''applied_at'', PIso (applied_at r)),
      (''success'', PBool (success r)),
      (''match_score'', (case app_match_score r of None \<Rightarrow> PNone | Some x \<Rightarrow> PFloat x)),
      (''cover_letter_generated'', PBool (cover_letter_generated r))]
     @ (case retried_at r of None \<Rightarrow> [] | Some t \<Rightarrow> [(''retried_at'', PIso t)])"

definition filter_applied_jobs :: "application_record list \<Rightarrow> job_details list \<Rightarrow> job_details list" where
  "filter_applied_jobs history jobs =
     (let applied_job_ids = set (map job_id history)
      in filter (\<lambda>job. id' job \<notin> applied_job_ids) jobs)"

text \<open>\<^verbatim>\<open>job.match_score or 0\<close>\<close>

definition score_or_0 :: "job_details \<Rightarrow> real" where
  "score_or_0 job = (case match_score job of None \<Rightarrow> 0 | Some x \<Rightarrow> x)"

text \<open>\<^verbatim>\<open>request.min_match_score or 0.7\<close> and \<^verbatim>\<open>request.max_applications_per_run or 5\<close>\<close>

definition min_score_of :: "auto_apply_request \<Rightarrow> real" where
  "min_score_of request = (if min_match_score request \<noteq> 0 then min_match_score request else 0.7)"

definition run_limit_of :: "auto_apply_request \<Rightarrow> int" where
  "run_limit_of request =
     (if max_applications_per_run request \<noteq> 0 then max_applications_per_run request else 5)"

text \<open>
  Lines 103 to 108 of \<^verbatim>\<open>_search_suitable_jobs\<close>: the new jobs are scored by the matcher,
  then filtered by the minimum score of the request.
\<close>

definition suitable_jobs ::
  "settings \<Rightarrow> environment \<Rightarrow> user_profile \<Rightarrow> auto_apply_request \<Rightarrow> job_details list
   \<Rightarrow> job_details list" where
  "suitable_jobs cfg env profile request new_jobs =
     (let matched_jobs = match_jobs cfg env profile new_jobs;
          min_score = min_score_of request
      in filter (\<lambda>job. score_or_0 job \<ge> min_score) matched_jobs)"

text \<open>
  \<^verbatim>\<open>_search_suitable_jobs\<close>; \<^verbatim>\<open>list.sort(key, reverse=True)\<close> is a stable sort by
  descending key.
\<close>

definition search_suitable_jobs ::
  "settings \<Rightarrow> environment \<Rightarrow> user_profile \<Rightarrow> auto_apply_request \<Rightarrow> application_record list
   \<Rightarrow> job_details list \<Rightarrow> job_details list" where
  "search_suitable_jobs cfg env profile request history all_jobs =
     (if all_jobs = [] then []
      else py_slice_to
             (sort_key (\<lambda>job. - score_or_0 job)
                (suitable_jobs cfg env profile request (filter_applied_jobs history all_jobs)))
             (run_limit_of request))"

subsection \<open>The browser as the bot sees it (\<^verbatim>\<open>LinkedInBot\<close>)\<close>

text \<open>
  What \<^verbatim>\<open>find_element\<close> gives for one selector: no such element, an element (enabled or
  not), or another driver exception.
\<close>

datatype element = NoSuchElement | Element bool | DriverError

text \<open>
  The page during one step of the application dialogue: the outcome of each selector of
  each helper, the labels of the radio buttons (\<open>None\<close>: reading the label or clicking
  raised), the option texts of the dropdowns, and the page source.
\<close>

record page =
  cover_letter_fields :: "element list"
  message_fields :: "element list"
  radio_labels :: "string option list"
  dropdowns :: "string list list"
  submit_buttons :: "element list"
  page_source :: string
  next_buttons :: "element list"

text \<open>
  The selector loop shared by \<^verbatim>\<open>_click_apply_button\<close>, \<^verbatim>\<open>_submit_application\<close> and
  \<^verbatim>\<open>_click_next_button\<close>: the first enabled element found is clicked; a missing element
  or a disabled one moves on to the next selector; any other exception gives \<open>False\<close>.
\<close>

fun click_first_enabled :: "element list \<Rightarrow> bool" where
  "click_first_enabled [] = False"
| "click_first_enabled (NoSuchElement # es) = click_first_enabled es"
| "click_first_enabled (Element enabled # es) = (if enabled then True else click_first_enabled es)"
| "click_first_enabled (DriverError # es) = False"

text \<open>
  The selector loop of a text field: \<open>Some True\<close> when a field was found and typed into,
  \<open>Some False\<close> when no selector matched, \<open>None\<close> when the driver raised.
\<close>

fun type_into_first :: "element list \<Rightarrow> bool option" where
  "type_into_first [] = Some False"
| "type_into_first (NoSuchElement # es) = type_into_first es"
| "type_into_first (Element enabled # es) = Some True"
| "type_into_first (DriverError # es) = None"

definition truthy_str :: "string option \<Rightarrow> bool" where
  "truthy_str s = (case s of None \<Rightarrow> False | Some t \<Rightarrow> t \<noteq> [])"

definition handle_application_form :: "string option \<Rightarrow> string option \<Rightarrow> page \<Rightarrow> bool" where
  "handle_application_form cover_letter custom_msg pg =
     (case (if truthy_str cover_letter then type_into_first (cover_letter_fields pg) else Some False) of
        None \<Rightarrow> False
      | Some cover_handled \<Rightarrow>
          (case (if truthy_str custom_msg then type_into_first (message_fields pg) else Some False) of
             None \<Rightarrow> False
           | Some message_handled \<Rightarrow> cover_handled \<or> message_handled))"

definition radio_answered :: "string \<Rightarrow> bool" where
  "radio_answered label =
     (let label_text = lower label
      in (str_in ''authorized to work'' label_text \<and> str_in ''yes'' label_text)
         \<or> (str_in ''require sponsorship'' label_text \<and> str_in ''no'' label_text)
         \<or> (str_in ''experience'' label_text \<and> str_in ''yes'' label_text))"

definition dropdown_answered :: "string list \<Rightarrow> bool" where
  "dropdown_answered options = (length options > 1 \<and> list_ex strip_truthy (tl options))"

definition handle_application_questions :: "page \<Rightarrow> bool" where
  "handle_application_questions pg =
     (list_ex (\<lambda>r. case r of None \<Rightarrow> False | Some label \<Rightarrow> radio_answered label) (radio_labels pg)
      \<or> list_ex dropdown_answered (dropdowns pg))"

definition submit_application :: "page \<Rightarrow> bool" where
  "submit_application pg = click_first_enabled (submit_buttons pg)"

definition success_indicators :: "string list" where
  "success_indicators =
     [''application submitted'', ''application sent'', ''thank you for applying'',
      ''your application has been received'']"

definition is_application_submitted :: "page \<Rightarrow> bool" where
  "is_application_submitted pg =
     (let page_text = lower (page_source pg)
      in list_ex (\<lambda>indicator. str_in indicator page_text) success_indicators)"

definition click_next_button :: "page \<Rightarrow> bool" where
  "click_next_button pg = click_first_enabled (next_buttons pg)"

definition max_steps :: nat where
  "max_steps = 5"

text \<open>
  The loop of \<^verbatim>\<open>_handle_application_process\<close>. \<open>pages k\<close> is the page during step \<open>k\<close>
  (the steps count from 1). The result is the returned flag (\<open>True\<close>: the application
  counts as submitted; \<open>False\<close>: it failed) and the value of \<^verbatim>\<open>current_step\<close> on leaving
  the loop, that is the number of steps executed.
\<close>

function application_steps ::
  "(nat \<Rightarrow> page) \<Rightarrow> string option \<Rightarrow> string option \<Rightarrow> nat \<Rightarrow> bool \<times> nat" where
  "application_steps pages cover_letter custom_msg current_step =
     (if current_step < max_steps then
        (if handle_application_form cover_letter custom_msg (pages (current_step + 1))
         then application_steps pages cover_letter custom_msg (current_step + 1)
         else if handle_application_questions (pages (current_step + 1))
         then application_steps pages cover_letter custom_msg (current_step + 1)
         else if submit_application (pages (current_step + 1)) then (True, current_step + 1)
         else if is_application_submitted (pages (current_step + 1)) then (True, current_step + 1)
         else if click_next_button (pages (current_step + 1))
         then application_steps pages cover_letter custom_msg (current_step + 1)
         else (False, current_step + 1))
      else (False, current_step))"
  by pat_completeness auto
termination
  by (relation "measure (\<lambda>(pages, cover_letter, custom_msg, current_step). max_steps - current_step)")
     auto

declare application_steps.simps [simp del]

definition handle_application_process ::
  "(nat \<Rightarrow> page) \<Rightarrow> string option \<Rightarrow> string option \<Rightarrow> bool" where
  "handle_application_process pages cover_letter custom_msg =
     fst (application_steps pages cover_letter custom_msg 0)"

text \<open>
  What one call of \<^verbatim>\<open>LinkedInBot.apply_to_job\<close> meets: the reply of the cover-letter
  generator (\<open>None\<close>: it raised), whether a login attempt ends on a logged-in page, whether
  the job page loads, the apply-button selectors, the pages of the dialogue, and the clock.
\<close>

record attempt =
  cover_letter_reply :: "string option"
  login_result :: bool
  navigate_ok :: bool
  apply_buttons :: "element list"
  pages :: "nat \<Rightarrow> page"
  clock :: datetime

definition login :: "settings \<Rightarrow> environment \<Rightarrow> attempt \<Rightarrow> bool" where
  "login cfg env att =
     (if \<not> selenium_available env then False
      else if LINKEDIN_EMAIL cfg = [] \<or> LINKEDIN_PASSWORD cfg = [] then False
      else login_result att)"

definition click_apply_button :: "attempt \<Rightarrow> bool" where
  "click_apply_button att = click_first_enabled (apply_buttons att)"

text \<open>
  \<^verbatim>\<open>LinkedInBot.apply_to_job\<close>: the returned flag and the new value of
  \<^verbatim>\<open>is_logged_in\<close>.
\<close>

definition linkedin_apply_to_job ::
  "settings \<Rightarrow> environment \<Rightarrow> attempt \<Rightarrow> bool \<Rightarrow> string option \<Rightarrow> string option \<Rightarrow> bool \<times> bool" where
  "linkedin_apply_to_job cfg env att is_logged_in cover_letter custom_msg =
     (if \<not> selenium_available env then (True, is_logged_in)
      else if \<not> is_logged_in \<and> \<not> login cfg env att then (False, False)
      else if \<not> navigate_ok att then (False, True)
      else if \<not> click_apply_button att then (False, True)
      else (handle_application_process (pages att) cover_letter custom_msg, True))"

subsection \<open>The orchestrator (\<^verbatim>\<open>AutoApplyService\<close>)\<close>

record service =
  is_running :: bool
  applications_today :: int
  application_history :: "application_record list"
  last_application_time :: "datetime option"
  bot_is_logged_in :: bool

text \<open>The state after \<^verbatim>\<open>__init__\<close>.\<close>

definition init_service :: service where
  "init_service =
     \<lparr>is_running = False, applications_today = 0, application_history = [],
      last_application_time = None, bot_is_logged_in = False\<rparr>"

text \<open>
  \<^verbatim>\<open>_apply_to_job\<close>: the returned flag and the new state. When the cover-letter generator
  raises, the handler returns \<open>False\<close> and nothing is recorded.
\<close>

definition apply_to_job ::
  "settings \<Rightarrow> environment \<Rightarrow> auto_apply_request \<Rightarrow> job_details \<Rightarrow> attempt \<Rightarrow> service
   \<Rightarrow> bool \<times> service" where
  "apply_to_job cfg env request job att s =
     (if generate_cover_letter request \<and> cover_letter_reply att = None then (False, s)
      else
        (let cover_letter = (if generate_cover_letter request then cover_letter_reply att else None);
             (succeeded, logged_in) =
               linkedin_apply_to_job cfg env att (bot_is_logged_in s) cover_letter
                 (Some (custom_message request));
             application_record =
               \<lparr>job_id = id' job, job_title = title job, app_company = company job,
                applied_at = clock att, success = succeeded, app_match_score = match_score job,
                cover_letter_generated = truthy_str cover_letter, retried_at = None\<rparr>
         in (succeeded,
             s\<lparr>application_history := application_history s @ [application_record],
               last_application_time := Some (clock att),
               bot_is_logged_in := logged_in\<rparr>)))"

text \<open>
  The inner loop of \<^verbatim>\<open>start_auto_apply_process\<close> over the jobs of one search;
  \<open>atts k\<close> is what the \<open>k\<close>-th application of the loop meets.
\<close>

fun apply_jobs ::
  "settings \<Rightarrow> environment \<Rightarrow> auto_apply_request \<Rightarrow> job_details list \<Rightarrow> (nat \<Rightarrow> attempt) \<Rightarrow> nat
   \<Rightarrow> service \<Rightarrow> service" where
  "apply_jobs cfg env request [] atts k s = s"
| "apply_jobs cfg env request (job # jobs) atts k s =
     (if \<not> is_running s \<or> applications_today s \<ge> MAX_APPLICATIONS_PER_DAY cfg then s
      else
        (let (succeeded, s1) = apply_to_job cfg env request job (atts k) s;
             s2 = (if succeeded then s1\<lparr>applications_today := applications_today s1 + 1\<rparr> else s1)
         in apply_jobs cfg env request jobs atts (k + 1) s2))"

text \<open>One pass of the outer loop: what the scraper finds and what the applications meet.\<close>

record cycle =
  found_jobs :: "job_details list"
  attempts :: "nat \<Rightarrow> attempt"

text \<open>
  The outer loop of \<^verbatim>\<open>start_auto_apply_process\<close>, run over the passes that are observed:
  the loop may go on for ever, and the list of passes is the part of its run that is looked
  at. When the loop condition fails the process ends and clears \<^verbatim>\<open>is_running\<close>.
\<close>

fun auto_apply_loop ::
  "settings \<Rightarrow> environment \<Rightarrow> user_profile \<Rightarrow> auto_apply_request \<Rightarrow> cycle list \<Rightarrow> service
   \<Rightarrow> service" where
  "auto_apply_loop cfg env profile request [] s =
     (if is_running s \<and> applications_today s < MAX_APPLICATIONS_PER_DAY cfg then s
      else s\<lparr>is_running := False\<rparr>)"
| "auto_apply_loop cfg env profile request (c # cs) s =
     (if is_running s \<and> applications_today s < MAX_APPLICATIONS_PER_DAY cfg then
        (let jobs = search_suitable_jobs cfg env profile request (application_history s) (found_jobs c)
         in if jobs = [] then auto_apply_loop cfg env profile request cs s
            else auto_apply_loop cfg env profile request cs
                   (apply_jobs cfg env request jobs (attempts c) 0 s))
      else s\<lparr>is_running := False\<rparr>)"

text \<open>
  \<^verbatim>\<open>start_auto_apply_process\<close>; \<open>loaded\<close> is the profile \<^verbatim>\<open>load_user_profile\<close> returns
  (\<open>None\<close>: it raised).
\<close>

definition start_auto_apply_process ::
  "settings \<Rightarrow> environment \<Rightarrow> user_profile option \<Rightarrow> auto_apply_request \<Rightarrow> cycle list \<Rightarrow> service
   \<Rightarrow> service" where
  "start_auto_apply_process cfg env loaded request cycles s =
     (case loaded of
        None \<Rightarrow> s\<lparr>is_running := False\<rparr>
      | Some profile \<Rightarrow> auto_apply_loop cfg env profile request cycles (s\<lparr>is_running := True\<rparr>))"

text \<open>
  \<^verbatim>\<open>retry_failed_applications\<close>. The list \<^verbatim>\<open>failed_applications\<close> holds the dicts of the
  history themselves, so it is modelled by their positions in the history; a successful
  retry updates the dict in place.
\<close>

definition failed_applications :: "application_record list \<Rightarrow> nat list" where
  "failed_applications history = filter (\<lambda>i. \<not> success (history ! i)) [0..<length history]"

text \<open>\<^verbatim>\<open>failed_applications[:max_retries]\<close>: the entries the retry loop goes through.\<close>

definition retry_selection :: "application_record list \<Rightarrow> int \<Rightarrow> nat list" where
  "retry_selection history max_retries = py_slice_to (failed_applications history) max_retries"

datatype retry_result = NoFailedApplications | Retried nat nat | RetryError

text \<open>
  The retry loop; \<open>retried_count\<close> and \<open>success_count\<close> are its two counters. Constructing
  the \<^verbatim>\<open>JobDetails\<close> object runs the validator of \<open>match_score\<close>, which raises on a
  score outside \<open>[0, 1]\<close>; the handler then returns the error result.
\<close>

fun retry_loop ::
  "settings \<Rightarrow> environment \<Rightarrow> nat list \<Rightarrow> (nat \<Rightarrow> attempt) \<Rightarrow> nat \<Rightarrow> nat \<Rightarrow> service
   \<Rightarrow> retry_result \<times> service" where
  "retry_loop cfg env [] atts retried_count success_count s = (Retried retried_count success_count, s)"
| "retry_loop cfg env (i # rest) atts retried_count success_count s =
     (if applications_today s \<ge> MAX_APPLICATIONS_PER_DAY cfg
      then (Retried retried_count success_count, s)
      else if \<not> validate_match_score (app_match_score (application_history s ! i))
      then (RetryError, s)
      else
        (let app = application_history s ! i;
             att = atts retried_count;
             (succeeded, logged_in) =
               linkedin_apply_to_job cfg env att (bot_is_logged_in s) None None;
             s1 = s\<lparr>bot_is_logged_in := logged_in\<rparr>;
             s2 = (if succeeded
                   then s1\<lparr>applications_today := applications_today s1 + 1,
                          application_history :=
                            (application_history s1)
                              [i := app\<lparr>success := True, retried_at := Some (clock att)\<rparr>]\<rparr>
                   else s1)
         in retry_loop cfg env rest atts (retried_count + 1)
              (if succeeded then success_count + 1 else success_count) s2))"

definition retry_failed_applications ::
  "settings \<Rightarrow> environment \<Rightarrow> int \<Rightarrow> (nat \<Rightarrow> attempt) \<Rightarrow> service \<Rightarrow> retry_result \<times> service" where
  "retry_failed_applications cfg env max_retries atts s =
     (if failed_applications (application_history s) = [] then (NoFailedApplications, s)
      else retry_loop cfg env (retry_selection (application_history s) max_retries) atts 0 0 s)"

text \<open>\<^verbatim>\<open>get_application_stats\<close> at the clock reading \<open>now\<close>.\<close>

record application_stats =
  total_applications :: nat
  successful_applications :: nat
  success_rate :: real
  stats_applications_today :: nat
  max_applications_per_day :: int
  remaining_applications_today :: int
  average_match_score :: real
  stats_is_running :: bool
  stats_last_application_time :: "datetime option"
  recent_applications :: "application_record list"

text \<open>
  The list \<^verbatim>\<open>match_scores\<close>: the scores of the entries whose \<^verbatim>\<open>match_score\<close> is truthy,
  that is neither \<^verbatim>\<open>None\<close> nor zero.
\<close>

fun truthy_scores :: "application_record list \<Rightarrow> real list" where
  "truthy_scores [] = []"
| "truthy_scores (app # history) =
     (case app_match_score app of
        None \<Rightarrow> truthy_scores history
      | Some x \<Rightarrow> if x \<noteq> 0 then x # truthy_scores history else truthy_scores history)"

definition get_application_stats :: "settings \<Rightarrow> datetime \<Rightarrow> service \<Rightarrow> application_stats" where
  "get_application_stats cfg now s =
     (let history = application_history s;
          total = length history;
          successful = length (filter success history);
          todays_applications = filter (\<lambda>app. date (applied_at app) = date now) history;
          rate = (if total > 0 then real successful / real total * 100 else 0);
          match_scores = truthy_scores history;
          avg_match_score =
            (if match_scores \<noteq> [] then sum_list match_scores / real (length match_scores) else 0);
          cutoff_time = now\<lparr>date := date now - 1\<rparr>;
          recent = filter (\<lambda>app. datetime_less cutoff_time (applied_at app)) history
      in \<lparr>total_applications = total,
          successful_applications = successful,
          success_rate = py_round rate 1,
          stats_applications_today = length todays_applications,
          max_applications_per_day = MAX_APPLICATIONS_PER_DAY cfg,
          remaining_applications_today =
            max 0 (MAX_APPLICATIONS_PER_DAY cfg - int (length todays_applications)),
          average_match_score = py_round avg_match_score 2,
          stats_is_running = is_running s,
          stats_last_application_time = last_application_time s,
          recent_applications = py_last_n recent 10\<rparr>)"

text \<open>The calls a client makes on one service object, one after the other.\<close>

datatype operation =
    Start "user_profile option" auto_apply_request "cycle list"
  | Retry int "nat \<Rightarrow> attempt"
  | Pause
  | Resume
  | Stop

fun perform :: "settings \<Rightarrow> environment \<Rightarrow> service \<Rightarrow> operation \<Rightarrow> service" where
  "perform cfg env s (Start loaded request cycles) =
     start_auto_apply_process cfg env loaded request cycles s"
| "perform cfg env s (Retry max_retries atts) =
     snd (retry_failed_applications cfg env max_retries atts s)"
| "perform cfg env s Pause = s\<lparr>is_running := False\<rparr>"
| "perform cfg env s Resume = s\<lparr>is_running := True\<rparr>"
| "perform cfg env s Stop = s\<lparr>is_running := False\<rparr>"

definition run_operations :: "settings \<Rightarrow> environment \<Rightarrow> operation list \<Rightarrow> service \<Rightarrow> service" where
  "run_operations cfg env ops s = foldl (perform cfg env) s ops"

text \<open>
  A step of the dialogue that the loop of \<^verbatim>\<open>_handle_application_process\<close> answers with
  \<^verbatim>\<open>continue\<close>: a form field or a question was handled, or nothing could be submitted,
  no confirmation was on the page and a next button was clicked.
\<close>

definition step_continues :: "string option \<Rightarrow> string option \<Rightarrow> page \<Rightarrow> bool" where
  "step_continues cover_letter custom_msg pg =
     (handle_application_form cover_letter custom_msg pg
      \<or> handle_application_questions pg
      \<or> (\<not> submit_application pg \<and> \<not> is_application_submitted pg \<and> click_next_button pg))"

subsection \<open>Concrete inputs\<close>

definition keyed_settings :: settings where
  "keyed_settings =
     default_settings\<lparr>OPENAI_API_KEY := ''sk'', LINKEDIN_EMAIL := ''me@example.org'',
                      LINKEDIN_PASSWORD := ''pw''\<rparr>"

definition one_a_day_settings :: settings where
  "one_a_day_settings = keyed_settings\<lparr>MAX_APPLICATIONS_PER_DAY := 1\<rparr>"

text \<open>An embedding service that answers every text with the vector opposite to the profile's.\<close>

definition opposed_env :: environment where
  "opposed_env =
     \<lparr>sklearn_numpy_available = True, openai_available = True, selenium_available = True,
      embedding_api = (\<lambda>text. Some [- 1]), ai_reply = (\<lambda>text. Some 0)\<rparr>"

text \<open>
  An embedding service that answers with the profile's own vector, a chat model whose reply
  is not a number, and no Selenium (the bot then reports success without a browser).
\<close>

definition aligned_env :: environment where
  "aligned_env =
     \<lparr>sklearn_numpy_available = True, openai_available = True, selenium_available = False,
      embedding_api = (\<lambda>text. Some [1]), ai_reply = (\<lambda>text. None)\<rparr>"

definition browser_env :: environment where
  "browser_env = aligned_env\<lparr>selenium_available := True\<rparr>"

definition python_profile :: user_profile where
  "python_profile =
     \<lparr>skills = [''Python''], experience = [], personal_location = [], embedding = Some [1]\<rparr>"

definition senior_go_job :: job_details where
  "senior_go_job =
     \<lparr>id' = ''j0'', title = ''Dev'', company = ''Acme'', location = ''Berlin'', url = ''u0'',
      description = [], requirements = [''go''], job_type = [], experience_level = ''senior'',
      match_score = None\<rparr>"

definition job_a :: job_details where
  "job_a =
     \<lparr>id' = ''a'', title = ''Dev'', company = ''Acme'', location = ''Berlin'', url = ''ua'',
      description = [], requirements = [''python''], job_type = [], experience_level = ''entry'',
      match_score = None\<rparr>"

definition job_b :: job_details where
  "job_b = job_a\<lparr>id' := ''b'', url := ''ub''\<rparr>"

definition job_c :: job_details where
  "job_c = job_a\<lparr>id' := ''c'', url := ''uc'', requirements := [''python'', ''go'']\<rparr>"

definition default_request :: auto_apply_request where
  "default_request =
     \<lparr>max_applications_per_run = 5, min_match_score = 0.7, generate_cover_letter = False,
      custom_message = []\<rparr>"

definition empty_page :: page where
  "empty_page =
     \<lparr>cover_letter_fields = [], message_fields = [], radio_labels = [], dropdowns = [],
      submit_buttons = [NoSuchElement, NoSuchElement, NoSuchElement, NoSuchElement, NoSuchElement],
      page_source = ''<html></html>'',
      next_buttons = [NoSuchElement, NoSuchElement, NoSuchElement, NoSuchElement]\<rparr>"

definition next_only_page :: page where
  "next_only_page = empty_page\<lparr>next_buttons := [Element True]\<rparr>"

definition submit_only_page :: page where
  "submit_only_page = empty_page\<lparr>submit_buttons := [Element True]\<rparr>"

definition attempt_on :: "int \<Rightarrow> page \<Rightarrow> attempt" where
  "attempt_on d pg =
     \<lparr>cover_letter_reply = Some ''Dear Hiring Manager'', login_result = True, navigate_ok = True,
      apply_buttons = [Element True], pages = (\<lambda>k. pg), clock = \<lparr>date = d, time_of_day = 0\<rparr>\<rparr>"

definition failed_a :: application_record where
  "failed_a =
     \<lparr>job_id = ''a'', job_title = ''Dev'', app_company = ''Acme'',
      applied_at = \<lparr>date = 1, time_of_day = 0\<rparr>, success = False, app_match_score = Some 0.9,
      cover_letter_generated = False, retried_at = None\<rparr>"

definition failed_b :: application_record where
  "failed_b = failed_a\<lparr>job_id := ''b'', applied_at := \<lparr>date = 2, time_of_day = 0\<rparr>\<rparr>"

definition zero_score_a :: application_record where
  "zero_score_a = failed_a\<lparr>app_match_score := Some 0\<rparr>"

definition no_score_b :: application_record where
  "no_score_b = failed_b\<lparr>app_match_score := None\<rparr>"

subsection \<open>What the ledger records\<close>

text \<open>The number of entries of the history that are recorded as successful.\<close>

definition recorded_successes :: "service \<Rightarrow> int" where
  "recorded_successes s = int (length (filter success (application_history s)))"


text \<open>
  The counter covers the successes of the ledger and is within the daily ceiling.
\<close>

definition within_quota :: "settings \<Rightarrow> service \<Rightarrow> bool" where
  "within_quota cfg s =
     (recorded_successes s \<le> applications_today s
      \<and> applications_today s \<le> MAX_APPLICATIONS_PER_DAY cfg)"

text \<open>Two runs of the process on consecutive days, each finding one well-matched job.\<close>

definition day_one :: "operation list" where
  "day_one =
     [Start (Some python_profile) default_request
        [\<lparr>found_jobs = [job_a], attempts = (\<lambda>k. attempt_on 1 empty_page)\<rparr>]]"

definition day_two :: "operation list" where
  "day_two =
     [Start (Some python_profile) default_request
        [\<lparr>found_jobs = [job_b], attempts = (\<lambda>k. attempt_on 2 empty_page)\<rparr>]]"

definition after_day_one :: service where
  "after_day_one =
     \<lparr>is_running = False, applications_today = 1,
      application_history =
        [\<lparr>job_id = ''a'', job_title = ''Dev'', app_company = ''Acme'',
          applied_at = \<lparr>date = 1, time_of_day = 0\<rparr>, success = True, app_match_score = Some 0.9,
          cover_letter_generated = False, retried_at = None\<rparr>],
      last_application_time = Some \<lparr>date = 1, time_of_day = 0\<rparr>,
      bot_is_logged_in = False\<rparr>"

subsection \<open>The loops between their awaits\<close>

text \<open>
  The service methods are coroutines: a call gives up control at each \<^verbatim>\<open>await\<close>, and
  another call on the same object may run there. In the inner loop of
  \<^verbatim>\<open>start_auto_apply_process\<close> the check of line 57 and the increment of line 63 are
  separated by the awaited call of the bot (\<^verbatim>\<open>asyncio.sleep\<close> in
  \<^verbatim>\<open>LinkedInBot.apply_to_job\<close>); in \<^verbatim>\<open>retry_failed_applications\<close> the same holds of the
  check of line 294 and the increment of line 318. The following four functions are the
  pieces of one pass of each loop that run without giving up control in between: the check,
  and what runs once the bot has answered.
\<close>

definition inner_loop_guard :: "settings \<Rightarrow> service \<Rightarrow> bool" where
  "inner_loop_guard cfg s =
     (\<not> (\<not> is_running s \<or> applications_today s \<ge> MAX_APPLICATIONS_PER_DAY cfg))"

definition complete_application ::
  "settings \<Rightarrow> environment \<Rightarrow> auto_apply_request \<Rightarrow> job_details \<Rightarrow> attempt \<Rightarrow> service \<Rightarrow> service" where
  "complete_application cfg env request job att s =
     (let (succeeded, s1) = apply_to_job cfg env request job att s
      in if succeeded then s1\<lparr>applications_today := applications_today s1 + 1\<rparr> else s1)"

text \<open>
  The check at the head of a pass of the retry loop, with the validator that runs when the
  job object is built, and the rest of the pass for entry \<open>i\<close> of the history.
\<close>

definition retry_guard :: "settings \<Rightarrow> nat \<Rightarrow> service \<Rightarrow> bool" where
  "retry_guard cfg i s =
     (\<not> applications_today s \<ge> MAX_APPLICATIONS_PER_DAY cfg
      \<and> validate_match_score (app_match_score (application_history s ! i)))"

definition complete_retry :: "settings \<Rightarrow> environment \<Rightarrow> attempt \<Rightarrow> nat \<Rightarrow> service \<Rightarrow> bool \<times> service" where
  "complete_retry cfg env att i s =
     (let (succeeded, logged_in) = linkedin_apply_to_job cfg env att (bot_is_logged_in s) None None;
          s1 = s\<lparr>bot_is_logged_in := logged_in\<rparr>
      in (succeeded,
          if succeeded
          then s1\<lparr>applications_today := applications_today s1 + 1,
                 application_history :=
                   (application_history s1)
                     [i := (application_history s ! i)
                             \<lparr>success := True, retried_at := Some (clock att)\<rparr>]\<rparr>
          else s1))"


text \<open>A remote job, and a request that allows one application per run.\<close>

definition job_r :: job_details where
  "job_r = job_a\<lparr>id' := ''r'', url := ''ur'', location := ''Remote''\<rparr>"

definition single_request :: auto_apply_request where
  "single_request = default_request\<lparr>max_applications_per_run := 1\<rparr>"

section \<open>Properties\<close>

lemmas scoring_defs =
  calculate_match_score_def create_job_text_def calculate_semantic_similarity_def
  generate_embedding_def cosine_similarity_def normalize_def row_norm_def
  calculate_skills_match_def job_skills_of_def common_skills_def lower_def lower_char_def
  calculate_experience_match_def experience_mapping_def calculate_location_match_def
  calculate_ai_match_score_def

lemmas input_defs =
  keyed_settings_def one_a_day_settings_def default_settings_def opposed_env_def
  aligned_env_def browser_env_def python_profile_def senior_go_job_def job_a_def job_b_def
  job_c_def default_request_def

subsection \<open>The match score\<close>

lemma calculate_match_score_le_1: "calculate_match_score cfg env profile job \<le> 1"
  by (simp add: calculate_match_score_def Let_def)

lemma score_job_a: "calculate_match_score keyed_settings aligned_env python_profile job_a = 0.9"
  by (simp add: scoring_defs input_defs)

lemma score_job_b: "calculate_match_score keyed_settings aligned_env python_profile job_b = 0.9"
  by (simp add: scoring_defs input_defs)

lemma score_job_c: "calculate_match_score keyed_settings aligned_env python_profile job_c = 0.75"
  by (simp add: scoring_defs input_defs card_insert_if)

text \<open>
  C1. The claim is that the overall match score always lies in \<open>[0, 1]\<close>. The weighted sum
  is only capped from above (\<open>calculate_match_score_le_1\<close>). The cosine similarity of two
  embeddings can be negative, and nothing raises the sum to zero: for a profile whose
  embedding is opposite to the job's, no matching skill, a senior job and a candidate with
  no held position, the score is \<open>-0.3 + 0 + 0.06 + 0.05 + 0 = -0.19\<close>.
\<close>

theorem calculate_match_score_negative:
  "calculate_match_score keyed_settings opposed_env python_profile senior_go_job = - 0.19"
  by (simp add: scoring_defs input_defs)

subsection \<open>The filter of jobs already applied to\<close>

text \<open>
  C5. Filtering the discovered jobs against an unchanged history is idempotent: filtering
  the filtered list again gives the same list.
\<close>

theorem filter_applied_jobs_idempotent:
  "filter_applied_jobs history (filter_applied_jobs history jobs) = filter_applied_jobs history jobs"
  by (simp add: filter_applied_jobs_def)

subsection \<open>The submission dialogue\<close>

lemmas page_defs = empty_page_def next_only_page_def submit_only_page_def
lemmas probe_defs = handle_application_form_def handle_application_questions_def
  submit_application_def is_application_submitted_def click_next_button_def truthy_str_def
  success_indicators_def lower_def lower_char_def

lemma application_steps_bound:
  "snd (application_steps pgs cl cm n) \<le> max n max_steps"
proof (induction pgs cl cm n rule: application_steps.induct)
  case (1 pgs cl cm n)
  show ?case
    by (subst application_steps.simps) (use 1 in \<open>auto simp: max_steps_def\<close>)
qed

lemma application_steps_exhaust:
  "n \<le> max_steps \<Longrightarrow> (\<forall>k. n < k \<and> k \<le> max_steps \<longrightarrow> step_continues cl cm (pgs k))
   \<Longrightarrow> application_steps pgs cl cm n = (False, max_steps)"
proof (induction pgs cl cm n rule: application_steps.induct)
  case (1 pgs cl cm n)
  show ?case
  proof (cases "n < max_steps")
    case True
    then have c: "step_continues cl cm (pgs (n + 1))"
      using 1(5) by simp
    have le: "n + 1 \<le> max_steps" using True by simp
    have rest: "\<forall>k. n + 1 < k \<and> k \<le> max_steps \<longrightarrow> step_continues cl cm (pgs k)"
      using 1(5) by simp
    show ?thesis
      apply (subst application_steps.simps)
      using True c 1(1)[OF True _ le rest] 1(2)[OF True _ _ le rest] 1(3)[OF True _ _ _ _ _ le rest]
      by (auto simp: step_continues_def)
  next
    case False
    then have "n = max_steps" using 1(4) by simp
    then show ?thesis
      by (subst application_steps.simps) simp
  qed
qed

text \<open>
  C6. For every sequence of pages the browser shows, the loop of the submission dialogue
  runs at most 5 steps and returns a flag (the function is total: it is defined by
  recursion on the steps left); when all 5 steps answer \<^verbatim>\<open>continue\<close> the budget is
  exhausted and the result is \<open>False\<close>, the failed outcome, after exactly 5 steps.
\<close>

theorem application_steps_terminate:
  "snd (application_steps pgs cl cm 0) \<le> 5 \<and>
   ((\<forall>k. 1 \<le> k \<and> k \<le> 5 \<longrightarrow> step_continues cl cm (pgs k))
      \<longrightarrow> application_steps pgs cl cm 0 = (False, 5))"
proof
  show "snd (application_steps pgs cl cm 0) \<le> 5"
    using application_steps_bound [of pgs cl cm 0] by (simp add: max_steps_def)
  show "(\<forall>k. 1 \<le> k \<and> k \<le> 5 \<longrightarrow> step_continues cl cm (pgs k))
      \<longrightarrow> application_steps pgs cl cm 0 = (False, 5)"
    using application_steps_exhaust [of 0 cl cm pgs] by (auto simp: max_steps_def)
qed

lemma next_only_continues: "step_continues None None next_only_page"
  by (simp add: step_continues_def page_defs probe_defs)

theorem application_steps_terminate_witness:
  "step_continues None None next_only_page \<and>
   application_steps (\<lambda>k. next_only_page) None None 0 = (False, 5) \<and>
   snd (application_steps (\<lambda>k. next_only_page) None None 0) \<le> 5"
  using application_steps_terminate [of "\<lambda>k. next_only_page" None None] next_only_continues
  by simp

text \<open>
  C7. The claim is that after invoking an enabled submit action the machine probes for a
  confirmation signal and ends in the confirmed outcome only if the signal is found. The
  code returns \<open>True\<close> as soon as \<^verbatim>\<open>_submit_application\<close> has clicked: on a page with an
  enabled submit button and no confirmation text at any time, the outcome is confirmed.
\<close>

theorem confirmed_without_confirmation_signal:
  "submit_application submit_only_page \<and> \<not> is_application_submitted submit_only_page \<and>
   handle_application_process (\<lambda>k. submit_only_page) None None = True"
  by (simp add: handle_application_process_def application_steps.simps [of _ _ _ 0] max_steps_def
      page_defs probe_defs)

lemma form_ignores_source [simp]:
  "handle_application_form cl cm (pg\<lparr>page_source := x\<rparr>) = handle_application_form cl cm pg"
  by (simp add: handle_application_form_def split: option.splits)

lemma questions_ignore_source [simp]:
  "handle_application_questions (pg\<lparr>page_source := x\<rparr>) = handle_application_questions pg"
  by (simp add: handle_application_questions_def)

lemma submit_ignores_source [simp]:
  "submit_application (pg\<lparr>page_source := x\<rparr>) = submit_application pg"
  by (simp add: submit_application_def)

text \<open>
  C7, as amended. In a step where no form field and no question was handled and an enabled
  submit button is found, the machine clicks it and ends in the confirmed outcome in that
  step, whatever the page source says before or after: the confirmation signal is not probed
  after a submit.
\<close>

theorem submit_confirms_without_probe:
  "current_step < max_steps \<Longrightarrow>
   \<not> handle_application_form cl cm (pgs (current_step + 1)) \<Longrightarrow>
   \<not> handle_application_questions (pgs (current_step + 1)) \<Longrightarrow>
   submit_application (pgs (current_step + 1)) \<Longrightarrow>
   application_steps (\<lambda>k. (pgs k)\<lparr>page_source := src k\<rparr>) cl cm current_step
     = (True, current_step + 1)"
  by (subst application_steps.simps) simp

theorem submit_confirms_without_probe_witness:
  "(0::nat) < max_steps \<and> \<not> handle_application_form None None submit_only_page \<and>
   \<not> handle_application_questions submit_only_page \<and> submit_application submit_only_page \<and>
   application_steps (\<lambda>k. submit_only_page\<lparr>page_source := ''Please try again''\<rparr>) None None 0 = (True, 0 + 1)"
  using submit_confirms_without_probe [of 0 None None "\<lambda>k. submit_only_page" "\<lambda>k. ''Please try again''"]
  by (simp add: max_steps_def page_defs probe_defs)

subsection \<open>The matched jobs\<close>

lemma match_jobs_loop_filter:
  "match_jobs_loop cfg env profile jobs matched_jobs =
     matched_jobs @
     map (\<lambda>job. job\<lparr>match_score := Some (calculate_match_score cfg env profile job)\<rparr>)
       (filter (\<lambda>job. calculate_match_score cfg env profile job \<ge> SIMILARITY_THRESHOLD cfg) jobs)"
  by (induction jobs arbitrary: matched_jobs) (simp_all add: Let_def)

lemma suitable_jobs_filter:
  "suitable_jobs cfg env profile request new_jobs =
     map (\<lambda>job. job\<lparr>match_score := Some (calculate_match_score cfg env profile job)\<rparr>)
       (filter (\<lambda>job. calculate_match_score cfg env profile job \<ge> min_score_of request
                     \<and> calculate_match_score cfg env profile job \<ge> SIMILARITY_THRESHOLD cfg)
          new_jobs)"
  by (simp add: suitable_jobs_def match_jobs_def match_jobs_loop_filter filter_map o_def
      score_or_0_def conj_commute)

lemma keyed_threshold: "SIMILARITY_THRESHOLD keyed_settings = 0.8"
  by (simp add: keyed_settings_def default_settings_def)

text \<open>
  C2. The claim is that the jobs selected as matched are exactly those whose score is at
  least the run threshold \<open>T\<close>. \<^verbatim>\<open>match_jobs\<close> first drops every job below the configured
  \<open>SIMILARITY_THRESHOLD\<close> (0.8 by default): a job of score 0.75 with \<open>T = 0.7\<close> is not
  selected.
\<close>

theorem matched_jobs_counterexample:
  "calculate_match_score keyed_settings aligned_env python_profile job_c \<ge> min_match_score default_request \<and>
   suitable_jobs keyed_settings aligned_env python_profile default_request [job_c] = [] \<and>
   search_suitable_jobs keyed_settings aligned_env python_profile default_request [] [job_c] = []"
  by (simp add: suitable_jobs_filter search_suitable_jobs_def filter_applied_jobs_def score_job_c
      default_request_def min_score_of_def keyed_threshold py_slice_to_def)

lemma score_job_r: "calculate_match_score keyed_settings aligned_env python_profile job_r = 0.95"
  by (simp add: scoring_defs input_defs job_r_def)

lemma search_suitable_jobs_sorted_cap:
  assumes "1 \<le> max_applications_per_run request"
  shows "search_suitable_jobs cfg env profile request history all_jobs
          = take (nat (max_applications_per_run request))
              (sort_key (\<lambda>job. - score_or_0 job)
                 (suitable_jobs cfg env profile request (filter_applied_jobs history all_jobs)))"
proof (cases "all_jobs = []")
  case True
  then show ?thesis
    by (simp add: search_suitable_jobs_def suitable_jobs_filter filter_applied_jobs_def)
next
  case False
  then show ?thesis
    using assms by (simp add: search_suitable_jobs_def run_limit_of_def py_slice_to_def)
qed

lemma sorted_desc_sort_key:
  "sorted_wrt (\<lambda>a b. score_or_0 a \<ge> score_or_0 b) (take n (sort_key (\<lambda>job. - score_or_0 job) xs))"
proof -
  have "sorted (map (\<lambda>job. - score_or_0 job) (sort_key (\<lambda>job. - score_or_0 job) xs))"
    by (rule sorted_sort_key)
  then have "sorted_wrt (\<lambda>a b. score_or_0 a \<ge> score_or_0 b) (sort_key (\<lambda>job. - score_or_0 job) xs)"
    by (simp add: sorted_map)
  then show ?thesis
    by (rule sorted_wrt_take)
qed

text \<open>
  C2, as amended. For a run threshold \<open>T\<close> other than zero, the jobs selected as matched
  are exactly the new jobs whose score is at least \<open>T\<close> and at least
  \<open>SIMILARITY_THRESHOLD\<close>, in their order, each carrying its score; a score equal to the
  larger of the two bounds is included. For a limit \<open>N \<ge> 1\<close> of applications per run, the
  orchestrator then takes the matched jobs among those not yet in the history, sorted by
  descending score (jobs of equal score keep their order), and keeps the first \<open>N\<close>.
\<close>

theorem suitable_jobs_exact:
  "min_match_score request \<noteq> 0 \<Longrightarrow>
   suitable_jobs cfg env profile request new_jobs =
     map (\<lambda>job. job\<lparr>match_score := Some (calculate_match_score cfg env profile job)\<rparr>)
       (filter (\<lambda>job. calculate_match_score cfg env profile job \<ge> min_match_score request
                     \<and> calculate_match_score cfg env profile job \<ge> SIMILARITY_THRESHOLD cfg)
          new_jobs) \<and>
   (1 \<le> max_applications_per_run request \<longrightarrow>
      search_suitable_jobs cfg env profile request history all_jobs
        = take (nat (max_applications_per_run request))
            (sort_key (\<lambda>job. - score_or_0 job)
               (suitable_jobs cfg env profile request (filter_applied_jobs history all_jobs))) \<and>
      sorted_wrt (\<lambda>a b. score_or_0 a \<ge> score_or_0 b)
        (search_suitable_jobs cfg env profile request history all_jobs) \<and>
      int (length (search_suitable_jobs cfg env profile request history all_jobs))
        \<le> max_applications_per_run request \<and>
      set (search_suitable_jobs cfg env profile request history all_jobs)
        \<subseteq> set (suitable_jobs cfg env profile request (filter_applied_jobs history all_jobs)))"
proof
  assume t: "min_match_score request \<noteq> 0"
  show "suitable_jobs cfg env profile request new_jobs =
     map (\<lambda>job. job\<lparr>match_score := Some (calculate_match_score cfg env profile job)\<rparr>)
       (filter (\<lambda>job. calculate_match_score cfg env profile job \<ge> min_match_score request
                     \<and> calculate_match_score cfg env profile job \<ge> SIMILARITY_THRESHOLD cfg)
          new_jobs)"
    using t by (simp add: suitable_jobs_filter min_score_of_def)
  show "1 \<le> max_applications_per_run request \<longrightarrow>
      search_suitable_jobs cfg env profile request history all_jobs
        = take (nat (max_applications_per_run request))
            (sort_key (\<lambda>job. - score_or_0 job)
               (suitable_jobs cfg env profile request (filter_applied_jobs history all_jobs))) \<and>
      sorted_wrt (\<lambda>a b. score_or_0 a \<ge> score_or_0 b)
        (search_suitable_jobs cfg env profile request history all_jobs) \<and>
      int (length (search_suitable_jobs cfg env profile request history all_jobs))
        \<le> max_applications_per_run request \<and>
      set (search_suitable_jobs cfg env profile request history all_jobs)
        \<subseteq> set (suitable_jobs cfg env profile request (filter_applied_jobs history all_jobs))"
  proof
    assume n: "1 \<le> max_applications_per_run request"
    note eq = search_suitable_jobs_sorted_cap [OF n, of cfg env profile history all_jobs]
    have s: "sorted_wrt (\<lambda>a b. score_or_0 a \<ge> score_or_0 b)
        (search_suitable_jobs cfg env profile request history all_jobs)"
      unfolding eq by (rule sorted_desc_sort_key)
    have l: "int (length (search_suitable_jobs cfg env profile request history all_jobs))
        \<le> max_applications_per_run request"
      unfolding eq using n by simp
    have m: "set (search_suitable_jobs cfg env profile request history all_jobs)
        \<subseteq> set (suitable_jobs cfg env profile request (filter_applied_jobs history all_jobs))"
      unfolding eq using set_take_subset [of "nat (max_applications_per_run request)"
          "sort_key (\<lambda>job. - score_or_0 job)
             (suitable_jobs cfg env profile request (filter_applied_jobs history all_jobs))"]
      by simp
    show "search_suitable_jobs cfg env profile request history all_jobs
        = take (nat (max_applications_per_run request))
            (sort_key (\<lambda>job. - score_or_0 job)
               (suitable_jobs cfg env profile request (filter_applied_jobs history all_jobs))) \<and>
      sorted_wrt (\<lambda>a b. score_or_0 a \<ge> score_or_0 b)
        (search_suitable_jobs cfg env profile request history all_jobs) \<and>
      int (length (search_suitable_jobs cfg env profile request history all_jobs))
        \<le> max_applications_per_run request \<and>
      set (search_suitable_jobs cfg env profile request history all_jobs)
        \<subseteq> set (suitable_jobs cfg env profile request (filter_applied_jobs history all_jobs))"
      using eq s l m by blast
  qed
qed

lemma filter_day_jobs:
  "filter_applied_jobs [failed_b] [job_c, job_a, job_b, job_r] = [job_c, job_a, job_r]"
  by (simp add: filter_applied_jobs_def failed_b_def failed_a_def job_a_def job_b_def job_c_def
      job_r_def)

theorem suitable_jobs_exact_witness:
  "min_match_score single_request \<noteq> 0 \<and> 1 \<le> max_applications_per_run single_request \<and>
   suitable_jobs keyed_settings aligned_env python_profile single_request [job_c, job_a, job_r]
     = [job_a\<lparr>match_score := Some 0.9\<rparr>, job_r\<lparr>match_score := Some 0.95\<rparr>] \<and>
   search_suitable_jobs keyed_settings aligned_env python_profile single_request [failed_b]
       [job_c, job_a, job_b, job_r]
     = [job_r\<lparr>match_score := Some 0.95\<rparr>]"
proof -
  have t: "min_match_score single_request \<noteq> 0" and n: "1 \<le> max_applications_per_run single_request"
    and n1: "max_applications_per_run single_request = 1"
    and t7: "min_match_score single_request = 0.7"
    by (simp_all add: single_request_def default_request_def)
  note th = suitable_jobs_exact [OF t, of keyed_settings aligned_env python_profile
      "[job_c, job_a, job_r]" "[failed_b]" "[job_c, job_a, job_b, job_r]"]
  have su: "suitable_jobs keyed_settings aligned_env python_profile single_request [job_c, job_a, job_r]
     = [job_a\<lparr>match_score := Some 0.9\<rparr>, job_r\<lparr>match_score := Some 0.95\<rparr>]"
    using th by (simp add: score_job_a score_job_c score_job_r keyed_threshold t7)
  have se: "search_suitable_jobs keyed_settings aligned_env python_profile single_request [failed_b]
       [job_c, job_a, job_b, job_r]
     = [job_r\<lparr>match_score := Some 0.95\<rparr>]"
    using th n by (simp add: filter_day_jobs su n1 score_or_0_def)
  show ?thesis using t n su se by simp
qed

subsection \<open>Retry\<close>

lemma nth_failed_applications:
  "map ((!) history) (failed_applications history) = filter (\<lambda>app. \<not> success app) history"
proof -
  have "filter (\<lambda>app. \<not> success app) history
      = filter (\<lambda>app. \<not> success app) (map ((!) history) [0..<length history])"
    by (simp add: map_nth)
  also have "\<dots> = map ((!) history) (failed_applications history)"
    by (simp add: filter_map o_def failed_applications_def)
  finally show ?thesis by simp
qed

text \<open>
  C8. The claim is that the failed records selected for retry come most recent first. The
  selection is a prefix of the failed records in the order of the history, which is the
  order of insertion: with two failed records and a limit of 1 the older one is selected.
\<close>

theorem retry_selection_counterexample:
  "map ((!) [failed_a, failed_b]) (retry_selection [failed_a, failed_b] 1) = [failed_a] \<and>
   \<not> success failed_b \<and> date (applied_at failed_a) < date (applied_at failed_b)"
  by (simp add: retry_selection_def py_slice_to_def failed_applications_def failed_a_def failed_b_def)

text \<open>
  C8, as amended. For every history and every limit that is not negative, the records
  selected for retry are exactly the records that are not successful, in the order of the
  history (oldest first), capped to the limit.
\<close>

theorem retry_selection_ledger_order:
  "0 \<le> max_retries \<Longrightarrow>
   map ((!) history) (retry_selection history max_retries)
     = take (nat max_retries) (filter (\<lambda>app. \<not> success app) history)"
  by (simp add: retry_selection_def py_slice_to_def nth_failed_applications [symmetric] take_map)

theorem retry_selection_ledger_order_witness:
  "(0::int) \<le> 1 \<and>
   map ((!) [failed_a, failed_b]) (retry_selection [failed_a, failed_b] 1)
     = take (nat 1) (filter (\<lambda>app. \<not> success app) [failed_a, failed_b])"
  using retry_selection_ledger_order [of 1 "[failed_a, failed_b]"] by simp

subsection \<open>The daily ceiling\<close>

lemma score_job_a_one_a_day:
  "calculate_match_score one_a_day_settings aligned_env python_profile job_a = 0.9"
  by (simp add: scoring_defs input_defs)

lemma one_a_day_threshold: "SIMILARITY_THRESHOLD one_a_day_settings = 0.8"
  by (simp add: one_a_day_settings_def keyed_settings_def default_settings_def)

lemma one_a_day_max: "MAX_APPLICATIONS_PER_DAY one_a_day_settings = 1"
  by (simp add: one_a_day_settings_def)

lemma search_day_one:
  "search_suitable_jobs one_a_day_settings aligned_env python_profile default_request [] [job_a]
     = [job_a\<lparr>match_score := Some 0.9\<rparr>]"
  by (simp add: search_suitable_jobs_def filter_applied_jobs_def suitable_jobs_filter
      score_job_a_one_a_day one_a_day_threshold min_score_of_def run_limit_of_def
      default_request_def py_slice_to_def)

lemma apply_day_one:
  "apply_to_job one_a_day_settings aligned_env default_request (job_a\<lparr>match_score := Some 0.9\<rparr>)
     (attempt_on 1 empty_page) (init_service\<lparr>is_running := True\<rparr>)
   = (True, after_day_one\<lparr>is_running := True, applications_today := 0\<rparr>)"
  by (simp add: apply_to_job_def linkedin_apply_to_job_def aligned_env_def default_request_def
      attempt_on_def init_service_def after_day_one_def job_a_def truthy_str_def)

lemma init_fields:
  "applications_today (init_service\<lparr>is_running := True\<rparr>) = 0"
  "application_history (init_service\<lparr>is_running := True\<rparr>) = []"
  by (simp_all add: init_service_def)

lemma apply_jobs_day_one:
  "apply_jobs one_a_day_settings aligned_env default_request [job_a\<lparr>match_score := Some 0.9\<rparr>]
     (\<lambda>k. attempt_on 1 empty_page) 0 (init_service\<lparr>is_running := True\<rparr>)
   = after_day_one\<lparr>is_running := True\<rparr>"
  by (simp add: apply_day_one one_a_day_max init_fields) (simp add: after_day_one_def)

lemma day_one_state:
  "run_operations one_a_day_settings aligned_env day_one init_service = after_day_one"
  by (simp add: run_operations_def day_one_def start_auto_apply_process_def Let_def
      search_day_one apply_jobs_day_one one_a_day_max init_fields del: apply_jobs.simps)
     (simp add: after_day_one_def)

lemma day_two_state:
  "run_operations one_a_day_settings aligned_env day_two after_day_one = after_day_one"
  by (simp add: run_operations_def day_two_def start_auto_apply_process_def one_a_day_max
      after_day_one_def)


lemma apply_to_job_effect:
  assumes "apply_to_job cfg env request job att s = (ok, s')"
  shows "applications_today s' = applications_today s"
    and "is_running s' = is_running s"
    and "recorded_successes s' = recorded_successes s + (if ok then 1 else 0)"
  using assms
  by (auto simp: apply_to_job_def recorded_successes_def Let_def split: if_splits prod.splits)

lemma recorded_successes_counter [simp]:
  "recorded_successes (s\<lparr>applications_today := n\<rparr>) = recorded_successes s"
  "recorded_successes (s\<lparr>is_running := b\<rparr>) = recorded_successes s"
  "recorded_successes (s\<lparr>bot_is_logged_in := b\<rparr>) = recorded_successes s"
  by (simp_all add: recorded_successes_def)

lemma within_quota_running [simp]:
  "within_quota cfg (s\<lparr>is_running := b\<rparr>) = within_quota cfg s"
  by (simp add: within_quota_def)








lemma apply_jobs_in_steps:
  "apply_jobs cfg env request (job # jobs) atts k s =
     (if inner_loop_guard cfg s
      then apply_jobs cfg env request jobs atts (k + 1)
             (complete_application cfg env request job (atts k) s)
      else s)"
  by (simp add: inner_loop_guard_def complete_application_def Let_def split: prod.splits)

lemma retry_loop_in_steps:
  "retry_loop cfg env (i # rest) atts retried_count success_count s =
     (if retry_guard cfg i s
      then retry_loop cfg env rest atts (retried_count + 1)
             (if fst (complete_retry cfg env (atts retried_count) i s)
              then success_count + 1 else success_count)
             (snd (complete_retry cfg env (atts retried_count) i s))
      else if applications_today s \<ge> MAX_APPLICATIONS_PER_DAY cfg
      then (Retried retried_count success_count, s)
      else (RetryError, s))"
  by (simp add: retry_guard_def complete_retry_def Let_def split: prod.splits)






subsection \<open>No reset of the counter\<close>

lemma apply_jobs_counter_mono:
  "applications_today s \<le> applications_today (apply_jobs cfg env request jobs atts k s)"
proof (induction jobs arbitrary: k s)
  case Nil
  then show ?case by simp
next
  case (Cons job jobs)
  show ?case
  proof (cases "\<not> is_running s \<or> applications_today s \<ge> MAX_APPLICATIONS_PER_DAY cfg")
    case True
    then show ?thesis by simp
  next
    case False
    obtain ok s1 where a: "apply_to_job cfg env request job (atts k) s = (ok, s1)"
      by (cases "apply_to_job cfg env request job (atts k) s")
    let ?s2 = "if ok then s1\<lparr>applications_today := applications_today s1 + 1\<rparr> else s1"
    have "applications_today s \<le> applications_today ?s2"
      using apply_to_job_effect(1) [OF a] by simp
    also have "\<dots> \<le> applications_today (apply_jobs cfg env request jobs atts (k + 1) ?s2)"
      by (rule Cons.IH)
    finally show ?thesis
      using False a by simp
  qed
qed

lemma auto_apply_loop_counter_mono:
  "applications_today s \<le> applications_today (auto_apply_loop cfg env profile request cycles s)"
proof (induction cycles arbitrary: s)
  case Nil
  then show ?case by simp
next
  case (Cons c cycles)
  have "applications_today s
        \<le> applications_today
            (apply_jobs cfg env request
               (search_suitable_jobs cfg env profile request (application_history s) (found_jobs c))
               (attempts c) 0 s)"
    by (rule apply_jobs_counter_mono)
  also have "\<dots> \<le> applications_today (auto_apply_loop cfg env profile request cycles
          (apply_jobs cfg env request
             (search_suitable_jobs cfg env profile request (application_history s) (found_jobs c))
             (attempts c) 0 s))"
    by (rule Cons.IH)
  finally show ?case
    using Cons.IH [of s] by (simp add: Let_def del: apply_jobs.simps)
qed

lemma retry_loop_counter_mono:
  "applications_today s \<le> applications_today (snd (retry_loop cfg env sel atts rc sc s))"
proof (induction sel arbitrary: rc sc s)
  case Nil
  then show ?case by simp
next
  case (Cons i rest)
  show ?case
  proof (cases "applications_today s \<ge> MAX_APPLICATIONS_PER_DAY cfg
                \<or> \<not> validate_match_score (app_match_score (application_history s ! i))")
    case True
    then show ?thesis by auto
  next
    case False
    obtain ok li where a:
      "linkedin_apply_to_job cfg env (atts rc) (bot_is_logged_in s) None None = (ok, li)"
      by (cases "linkedin_apply_to_job cfg env (atts rc) (bot_is_logged_in s) None None")
    let ?s1 = "s\<lparr>bot_is_logged_in := li\<rparr>"
    let ?s2 = "if ok
               then ?s1\<lparr>applications_today := applications_today ?s1 + 1,
                        application_history :=
                          (application_history ?s1)
                            [i := (application_history s ! i)
                                    \<lparr>success := True, retried_at := Some (clock (atts rc))\<rparr>]\<rparr>
               else ?s1"
    have "applications_today s \<le> applications_today ?s2" by simp
    also have "\<dots> \<le> applications_today
        (snd (retry_loop cfg env rest atts (rc + 1) (if ok then sc + 1 else sc) ?s2))"
      by (rule Cons.IH)
    finally show ?thesis
      using False a by (simp add: Let_def)
  qed
qed

lemma perform_counter_mono:
  "applications_today s \<le> applications_today (perform cfg env s op)"
proof (cases op)
  case (Start loaded request cycles)
  then show ?thesis
    using auto_apply_loop_counter_mono [of "s\<lparr>is_running := True\<rparr>"]
    by (simp add: start_auto_apply_process_def split: option.splits)
next
  case (Retry max_retries atts)
  then show ?thesis
    by (simp add: retry_failed_applications_def retry_loop_counter_mono)
qed simp_all

text \<open>
  C4. The claim is that the counter is reset to zero when the date moves past the date
  stored with it. The service stores no date with the counter and never resets it: with a
  ceiling of 1, after one successful application on day 1 the run of day 2 finds the
  counter at 1 and applies to nothing.
\<close>

theorem counter_reset_counterexample:
  "last_application_time (run_operations one_a_day_settings aligned_env day_one init_service)
     = Some \<lparr>date = 1, time_of_day = 0\<rparr> \<and>
   applications_today (run_operations one_a_day_settings aligned_env day_one init_service) = 1 \<and>
   clock (attempt_on 2 empty_page) = \<lparr>date = 2, time_of_day = 0\<rparr> \<and>
   run_operations one_a_day_settings aligned_env day_two
     (run_operations one_a_day_settings aligned_env day_one init_service) = after_day_one \<and>
   applications_today after_day_one = 1 \<and>
   length (application_history after_day_one) = 1"
  by (simp add: day_one_state day_two_state) (simp add: after_day_one_def attempt_on_def)

text \<open>
  C4, as amended. The counter is never reset while the service object lives: over any
  sequence of runs, retries and control calls, whatever the dates of the clock, it never
  decreases. It is zero only on a fresh service object.
\<close>

theorem counter_never_reset:
  "applications_today s \<le> applications_today (run_operations cfg env ops s)"
  unfolding run_operations_def
proof (induction ops arbitrary: s)
  case Nil
  then show ?case by simp
next
  case (Cons op ops)
  have "applications_today s \<le> applications_today (perform cfg env s op)"
    by (rule perform_counter_mono)
  also have "\<dots> \<le> applications_today (foldl (perform cfg env) (perform cfg env s op) ops)"
    by (rule Cons.IH)
  finally show ?case by simp
qed

theorem counter_never_reset_witness:
  "applications_today after_day_one
     \<le> applications_today (run_operations one_a_day_settings aligned_env day_two after_day_one) \<and>
   applications_today (run_operations one_a_day_settings aligned_env day_two after_day_one) = 1"
  using counter_never_reset [of after_day_one one_a_day_settings aligned_env day_two]
  by (simp add: day_two_state) (simp add: after_day_one_def)

subsection \<open>The records of the ledger\<close>

lemma next_only_continues_message: "step_continues None (Some []) next_only_page"
  by (simp add: step_continues_def page_defs probe_defs)

lemma next_only_process_fails:
  "handle_application_process (\<lambda>k. next_only_page) None (Some []) = False"
  using application_steps_exhaust [of 0 None "Some []" "\<lambda>k. next_only_page"]
    next_only_continues_message
  by (simp add: handle_application_process_def)

lemma keyed_credentials:
  "LINKEDIN_EMAIL keyed_settings \<noteq> []" "LINKEDIN_PASSWORD keyed_settings \<noteq> []"
  by (simp_all add: keyed_settings_def)

text \<open>
  C9. The claim is that every record written to the ledger carries an error message that
  is empty exactly on success, so that a failed submission leaves a message that is not
  empty. The dict written by \<^verbatim>\<open>_apply_to_job\<close> has no such key: a submission whose dialogue
  uses up its five steps is recorded with \<open>success = False\<close> and nothing else about the
  failure.
\<close>

theorem failed_record_counterexample:
  "apply_to_job keyed_settings browser_env default_request job_a (attempt_on 1 next_only_page)
     init_service
   = (False,
      init_service
        \<lparr>application_history :=
           [\<lparr>job_id = ''a'', job_title = ''Dev'', app_company = ''Acme'',
             applied_at = \<lparr>date = 1, time_of_day = 0\<rparr>, success = False,
             app_match_score = None, cover_letter_generated = False, retried_at = None\<rparr>],
         last_application_time := Some \<lparr>date = 1, time_of_day = 0\<rparr>,
         bot_is_logged_in := True\<rparr>) \<and>
   map_of (as_dict
     \<lparr>job_id = ''a'', job_title = ''Dev'', app_company = ''Acme'',
       applied_at = \<lparr>date = 1, time_of_day = 0\<rparr>, success = False,
       app_match_score = None, cover_letter_generated = False, retried_at = None\<rparr>)
     ''error_message'' = None"
  by (simp add: apply_to_job_def linkedin_apply_to_job_def login_def click_apply_button_def
      keyed_credentials next_only_process_fails browser_env_def aligned_env_def
      default_request_def attempt_on_def init_service_def job_a_def truthy_str_def as_dict_def)

text \<open>
  C9, as amended. Whenever \<^verbatim>\<open>_apply_to_job\<close> gets as far as the bot (the cover-letter
  generator did not raise), it appends exactly one record. The record's success flag is the
  flag the bot returns, which is also what \<^verbatim>\<open>_apply_to_job\<close> returns: with a browser, the
  record is successful only if the submission dialogue ended confirmed, and a dialogue that
  uses up its five steps gives a record that is not successful. The keys of the record are
  the seven of the dict literal, and it carries no error message, on success or on failure.
\<close>

theorem written_record_fields:
  "\<not> (generate_cover_letter request \<and> cover_letter_reply att = None) \<Longrightarrow>
   \<exists>r. application_history (snd (apply_to_job cfg env request job att s))
         = application_history s @ [r] \<and>
       fst (apply_to_job cfg env request job att s) = success r \<and>
       success r
         = fst (linkedin_apply_to_job cfg env att (bot_is_logged_in s)
                  (if generate_cover_letter request then cover_letter_reply att else None)
                  (Some (custom_message request))) \<and>
       (selenium_available env \<and> success r \<longrightarrow>
          handle_application_process (pages att)
            (if generate_cover_letter request then cover_letter_reply att else None)
            (Some (custom_message request))) \<and>
       (selenium_available env \<and>
        (\<forall>k. 1 \<le> k \<and> k \<le> 5 \<longrightarrow>
           step_continues (if generate_cover_letter request then cover_letter_reply att else None)
             (Some (custom_message request)) (pages att k))
        \<longrightarrow> \<not> success r) \<and>
       job_id r = id' job \<and>
       map fst (as_dict r)
         = [''job_id'', ''job_title'', ''company'', ''applied_at'', ''success'', ''match_score'',
            ''cover_letter_generated''] \<and>
       map_of (as_dict r) ''error_message'' = None"
proof -
  assume w: "\<not> (generate_cover_letter request \<and> cover_letter_reply att = None)"
  define cl where "cl = (if generate_cover_letter request then cover_letter_reply att else None)"
  define cm where "cm = Some (custom_message request)"
  define out where "out = linkedin_apply_to_job cfg env att (bot_is_logged_in s) cl cm"
  define r where
    "r = \<lparr>job_id = id' job, job_title = title job, app_company = company job,
          applied_at = clock att, success = fst out, app_match_score = match_score job,
          cover_letter_generated = truthy_str cl, retried_at = None\<rparr>"
  have res: "apply_to_job cfg env request job att s
    = (fst out,
       s\<lparr>application_history := application_history s @ [r],
         last_application_time := Some (clock att), bot_is_logged_in := snd out\<rparr>)"
  proof (cases "generate_cover_letter request")
    case True
    with w obtain y where "cover_letter_reply att = Some y" by auto
    with True show ?thesis
      unfolding apply_to_job_def r_def out_def cl_def cm_def
      by (simp add: Let_def case_prod_beta)
  next
    case False
    then show ?thesis
      unfolding apply_to_job_def r_def out_def cl_def cm_def
      by (simp add: Let_def case_prod_beta)
  qed
  have h1: "application_history (snd (apply_to_job cfg env request job att s))
         = application_history s @ [r]"
    by (simp add: res)
  have h2: "fst (apply_to_job cfg env request job att s) = success r"
    by (simp add: res r_def)
  have h3: "success r = fst out"
    by (simp add: r_def)
  have browser: "selenium_available env \<and> success r \<longrightarrow> handle_application_process (pages att) cl cm"
    unfolding h3 out_def linkedin_apply_to_job_def by (simp split: if_splits)
  have fails: "(\<forall>k. 1 \<le> k \<and> k \<le> 5 \<longrightarrow> step_continues cl cm (pages att k))
      \<longrightarrow> \<not> handle_application_process (pages att) cl cm"
    using application_steps_exhaust [of 0 cl cm "pages att"]
    by (simp add: handle_application_process_def max_steps_def)
  have exhaust: "selenium_available env \<and>
        (\<forall>k. 1 \<le> k \<and> k \<le> 5 \<longrightarrow> step_continues cl cm (pages att k)) \<longrightarrow> \<not> success r"
    using browser fails by blast
  have h6: "job_id r = id' job"
    by (simp add: r_def)
  have h7: "map fst (as_dict r)
         = [''job_id'', ''job_title'', ''company'', ''applied_at'', ''success'', ''match_score'',
            ''cover_letter_generated'']"
    by (simp add: r_def as_dict_def)
  have h8: "map_of (as_dict r) ''error_message'' = None"
    by (simp add: r_def as_dict_def)
  show ?thesis
    apply (rule exI [of _ r])
    using h1 h2 h3 browser exhaust h6 h7 h8
    unfolding out_def cl_def cm_def
    by (intro conjI)
qed


theorem written_record_fields_witness:
  "\<not> (generate_cover_letter default_request \<and> cover_letter_reply (attempt_on 1 next_only_page) = None) \<and>
   selenium_available browser_env \<and>
   step_continues None (Some (custom_message default_request)) next_only_page \<and>
   (\<exists>r. application_history (snd (apply_to_job keyed_settings browser_env default_request job_a
              (attempt_on 1 next_only_page) init_service))
         = application_history init_service @ [r] \<and>
       \<not> success r \<and>
       \<not> fst (apply_to_job keyed_settings browser_env default_request job_a
              (attempt_on 1 next_only_page) init_service) \<and>
       job_id r = id' job_a \<and>
       map_of (as_dict r) ''error_message'' = None)"
proof -
  have g: "\<not> generate_cover_letter default_request" and cm: "custom_message default_request = []"
    by (simp_all add: default_request_def)
  have sel: "selenium_available browser_env"
    by (simp add: browser_env_def)
  have pg: "pages (attempt_on 1 next_only_page) = (\<lambda>k. next_only_page)"
    by (simp add: attempt_on_def)
  have c: "step_continues None (Some (custom_message default_request)) next_only_page"
    using next_only_continues_message by (simp add: cm)
  have w: "\<not> (generate_cover_letter default_request
              \<and> cover_letter_reply (attempt_on 1 next_only_page) = None)"
    using g by simp
  from written_record_fields [OF w, of keyed_settings browser_env job_a init_service]
  obtain r where r:
    "application_history (snd (apply_to_job keyed_settings browser_env default_request job_a
              (attempt_on 1 next_only_page) init_service))
         = application_history init_service @ [r]"
    "fst (apply_to_job keyed_settings browser_env default_request job_a
              (attempt_on 1 next_only_page) init_service) = success r"
    "selenium_available browser_env \<and>
        (\<forall>k. 1 \<le> k \<and> k \<le> 5 \<longrightarrow>
           step_continues (if generate_cover_letter default_request
                           then cover_letter_reply (attempt_on 1 next_only_page) else None)
             (Some (custom_message default_request)) (pages (attempt_on 1 next_only_page) k))
        \<longrightarrow> \<not> success r"
    "job_id r = id' job_a"
    "map_of (as_dict r) ''error_message'' = None"
    by blast
  have "\<not> success r"
    using r(3) sel c g by (simp add: pg)
  then show ?thesis
    using w sel c r by blast
qed

subsection \<open>The average match score\<close>

lemma truthy_scores_filter:
  "truthy_scores (filter (\<lambda>app. app_match_score app \<noteq> None \<and> app_match_score app \<noteq> Some 0) history)
     = truthy_scores history"
  by (induction history) (auto split: option.splits)

lemma truthy_scores_none:
  "list_all (\<lambda>app. app_match_score app = None \<or> app_match_score app = Some 0) history
   \<Longrightarrow> truthy_scores history = []"
  by (induction history) (auto split: option.splits)

lemma py_round_0: "py_round 0 nd = 0"
  by (simp add: py_round_def)

lemma average_unfold:
  "average_match_score (get_application_stats cfg now s) =
     py_round (if truthy_scores (application_history s) \<noteq> []
               then sum_list (truthy_scores (application_history s))
                    / real (length (truthy_scores (application_history s)))
               else 0) 2"
  by (simp add: get_application_stats_def Let_def)

text \<open>
  C10. The average match score of the stats is computed over the records whose match score
  is truthy only: it is unchanged when the records with a score of \<^verbatim>\<open>None\<close> or zero are
  removed from the history, and for a history of such records only the list of scores is
  empty and the reported average is the fallback 0.
\<close>

theorem average_over_truthy_scores:
  "average_match_score (get_application_stats cfg now s)
     = average_match_score (get_application_stats cfg now
         (s\<lparr>application_history :=
              filter (\<lambda>app. app_match_score app \<noteq> None \<and> app_match_score app \<noteq> Some 0)
                (application_history s)\<rparr>)) \<and>
   (list_all (\<lambda>app. app_match_score app = None \<or> app_match_score app = Some 0)
       (application_history s)
    \<longrightarrow> truthy_scores (application_history s) = []
        \<and> average_match_score (get_application_stats cfg now s) = 0)"
  by (simp add: average_unfold truthy_scores_filter truthy_scores_none py_round_0
      del: not_None_eq)

theorem average_over_truthy_scores_witness:
  "list_all (\<lambda>app. app_match_score app = None \<or> app_match_score app = Some 0)
     [zero_score_a, no_score_b] \<and>
   average_match_score (get_application_stats default_settings \<lparr>date = 3, time_of_day = 0\<rparr>
      (init_service\<lparr>application_history := [zero_score_a, no_score_b]\<rparr>)) = 0 \<and>
   average_match_score (get_application_stats default_settings \<lparr>date = 3, time_of_day = 0\<rparr>
      (init_service\<lparr>application_history := [zero_score_a, failed_b]\<rparr>)) = 0.9"
proof -
  have z: "list_all (\<lambda>app. app_match_score app = None \<or> app_match_score app = Some 0)
     [zero_score_a, no_score_b]"
    by (simp add: zero_score_a_def no_score_b_def failed_a_def failed_b_def)
  have r: "py_round 0.9 2 = 0.9"
    by (simp add: py_round_def Let_def)
  have m: "average_match_score (get_application_stats default_settings \<lparr>date = 3, time_of_day = 0\<rparr>
      (init_service\<lparr>application_history := [zero_score_a, failed_b]\<rparr>)) = 0.9"
    by (simp add: average_unfold zero_score_a_def failed_a_def failed_b_def r)
  show ?thesis
    using average_over_truthy_scores [of default_settings "\<lparr>date = 3, time_of_day = 0\<rparr>"
        "init_service\<lparr>application_history := [zero_score_a, no_score_b]\<rparr>"] z m
    by simp
qed

end
